theory Spec2Isabelle
  imports Main
begin

section \<open>Strings\<close>

text \<open>
  Python strings are modelled as \<^typ>\<open>string\<close>, and \<open>str.lower\<close> on the ASCII letters;
  every other character is left as it is. Python lower-cases letters outside ASCII too,
  but none of them to a run of letters in which the keyword \<open>meeting\<close> could occur, so the
  routing decision does not depend on that part of \<open>str.lower\<close>.
\<close>

definition lower_char :: "char \<Rightarrow> char" where
  "lower_char c =
     (let n = (of_char c :: nat) in if 65 \<le> n \<and> n \<le> 90 then char_of (n + 32) else c)"

definition lower :: "string \<Rightarrow> string" where
  "lower s = map lower_char s"

fun startswith :: "string \<Rightarrow> string \<Rightarrow> bool" where
  "startswith s [] = True"
| "startswith [] (p # ps) = False"
| "startswith (c # s) (p # ps) = (c = p \<and> startswith s ps)"

text \<open>\<open>contains needle hay\<close> is Python's \<open>needle in hay\<close> on strings.\<close>

fun contains :: "string \<Rightarrow> string \<Rightarrow> bool" where
  "contains needle [] = (needle = [])"
| "contains needle (c # s) = (startswith (c # s) needle \<or> contains needle s)"

text \<open>\<open>str_join sep xs\<close> is Python's \<open>sep.join(xs)\<close>.\<close>

fun str_join :: "string \<Rightarrow> string list \<Rightarrow> string" where
  "str_join sep [] = []"
| "str_join sep [x] = x"
| "str_join sep (x # y # ys) = x @ sep @ str_join sep (y # ys)"

section \<open>Query routing\<close>

definition is_coimbatore_query :: "string \<Rightarrow> bool" where
  "is_coimbatore_query query = contains ''meeting'' (lower query)"

text \<open>
  The routing decision is the \<open>if is_coimbatore_query(user_input)\<close> of
  \<open>on_click_callback\<close>: the retrieval chain on one branch, the general chain on the other.
\<close>

datatype route = Grounded | General

definition classify :: "string \<Rightarrow> route" where
  "classify q = (if is_coimbatore_query q then Grounded else General)"

section \<open>Python values, messages and errors\<close>

text \<open>
  The values a message field can hold: what \<open>json.load\<close> produces (\<open>None\<close>, booleans,
  integers, strings, lists, dictionaries with string keys) and \<open>PObj\<close>, an object that
  \<open>json.dump\<close> cannot serialise (a langchain \<open>Document\<close>, which is not a \<open>dict\<close>).
\<close>

datatype pyval =
    PNone
  | PBool bool
  | PInt int
  | PStr string
  | PList "pyval list"
  | PDict "(string \<times> pyval) list"
  | PObj string

fun json_serializable :: "pyval \<Rightarrow> bool" where
  "json_serializable (PObj cls) = False"
| "json_serializable (PList xs) = list_all json_serializable xs"
| "json_serializable (PDict kvs) = list_all (\<lambda>kv. json_serializable (snd kv)) kvs"
| "json_serializable v = True"

text \<open>\<open>isinstance(v, dict)\<close> and \<open>isinstance(v, str)\<close>.\<close>

fun is_dict :: "pyval \<Rightarrow> bool" where
  "is_dict (PDict kvs) = True"
| "is_dict v = False"

fun is_str :: "pyval \<Rightarrow> bool" where
  "is_str (PStr t) = True"
| "is_str v = False"

text \<open>
  A message object is a dictionary with the two keys \<open>origin\<close> and \<open>message\<close>. The
  dataclass \<open>Message\<close> declares the same two fields; the code never constructs it, and
  the dictionaries are not typed, so both fields hold any value.
\<close>

record msg =
  origin :: pyval
  message :: pyval

datatype error =
    FileNotFoundError
  | JSONDecodeError
  | TypeError
  | KeyError
  | AttributeError
  | PermissionError
  | RetrievalError
  | GenerationError

section \<open>The history file\<close>

text \<open>
  \<open>HISTORY_FILE\<close> is absent (\<open>None\<close>) or holds a text. The text is modelled by what
  \<open>json.load\<close> makes of it: the array of records it parses to (\<open>Json\<close>), or
  \<open>Malformed\<close> for a text that \<open>json.load\<close> rejects, such as an empty or a truncated
  file. Valid JSON of another shape and failures of opening, reading and writing the file
  (permissions, a full disk) are not represented.
\<close>

datatype file_content = Json "msg list" | Malformed

definition os_path_exists :: "file_content option \<Rightarrow> bool" where
  "os_path_exists f = (f \<noteq> None)"

text \<open>
  \<open>os.remove\<close> raises \<open>FileNotFoundError\<close> when the file is absent, and an \<open>OSError\<close>
  (\<open>PermissionError\<close> for a directory that cannot be written, \<open>IsADirectoryError\<close> for a
  directory at the path) when the file is there and cannot be removed; \<open>can_remove\<close> says
  which of the two holds for a file that is there.
\<close>

definition os_remove :: "bool \<Rightarrow> file_content option \<Rightarrow> error + file_content option" where
  "os_remove can_remove f =
     (case f of
        None \<Rightarrow> Inl FileNotFoundError
      | Some c \<Rightarrow> if can_remove then Inr None else Inl PermissionError)"

text \<open>\<open>open(HISTORY_FILE, "r")\<close> followed by \<open>json.load\<close>.\<close>

definition json_load :: "file_content option \<Rightarrow> error + msg list" where
  "json_load f =
     (case f of
        None \<Rightarrow> Inl FileNotFoundError
      | Some Malformed \<Rightarrow> Inl JSONDecodeError
      | Some (Json ms) \<Rightarrow> Inr ms)"

text \<open>
  \<open>open(HISTORY_FILE, "w")\<close> followed by \<open>json.dump\<close>. Opening truncates the file;
  \<open>json.dump\<close> writes the encoding piece by piece and raises \<open>TypeError\<close> at the first
  value it cannot serialise, which leaves a truncated text behind.
\<close>

definition json_dump :: "msg list \<Rightarrow> (error + unit) \<times> file_content option" where
  "json_dump objs =
     (if list_all (\<lambda>m. json_serializable (origin m) \<and> json_serializable (message m)) objs
      then (Inr (), Some (Json objs))
      else (Inl TypeError, Some Malformed))"

section \<open>External capabilities and prompt templates\<close>

type_synonym prompt = "(string \<times> string) list"

text \<open>
  The capabilities the program is built on: Python's \<open>str\<close> on a value that is not a
  string, the retriever of the vector store (the texts of the chunks it returns), and
  the language model behind the output parser. Either call may raise.
\<close>

record env =
  py_str :: "pyval \<Rightarrow> string"
  retriever :: "string \<Rightarrow> error + string list"
  llm :: "prompt \<Rightarrow> error + string"

text \<open>What an f-string or \<open>str\<close> makes of a value.\<close>

definition str_of :: "env \<Rightarrow> pyval \<Rightarrow> string" where
  "str_of env v = (case v of PStr t \<Rightarrow> t | _ \<Rightarrow> py_str env v)"

datatype seg = Lit string | Var string

fun fill :: "(string \<rightharpoonup> string) \<Rightarrow> seg list \<Rightarrow> error + string" where
  "fill vars [] = Inr []"
| "fill vars (Lit t # segs) =
     (case fill vars segs of Inl e \<Rightarrow> Inl e | Inr r \<Rightarrow> Inr (t @ r))"
| "fill vars (Var v # segs) =
     (case vars v of
        None \<Rightarrow> Inl KeyError
      | Some x \<Rightarrow> (case fill vars segs of Inl e \<Rightarrow> Inl e | Inr r \<Rightarrow> Inr (x @ r)))"

fun format_messages :: "(string \<rightharpoonup> string) \<Rightarrow> (string \<times> seg list) list \<Rightarrow> error + prompt" where
  "format_messages vars [] = Inr []"
| "format_messages vars ((role, segs) # rest) =
     (case fill vars segs of
        Inl e \<Rightarrow> Inl e
      | Inr content \<Rightarrow>
          (case format_messages vars rest of
             Inl e \<Rightarrow> Inl e
           | Inr ps \<Rightarrow> Inr ((role, content) # ps)))"

definition coimbatore_prompt :: "seg list" where
  "coimbatore_prompt =
     [Lit ''You are an intelligent meeting assistant called RUBY for helping employees and clarify their queries regarding the virtual meet.\<newline>        Use the following pieces of retrieved context to answer the question in detail:'',
      Var ''context'',
      Lit ''.        Greet if the user greets you.         If you don't know the answer, just say that you don't know \<newline>        Only answer relevant content and Not anything extra.        Dont return the prompt in the answer.         Don't respond irrelevant or anything outside the context.         ___________\<newline>        '',
      Var ''context'']"

definition grounded_template :: "(string \<times> seg list) list" where
  "grounded_template = [(''system'', coimbatore_prompt), (''human'', [Var ''input''])]"

definition general_template :: "(string \<times> seg list) list" where
  "general_template =
     [(''system'', [Lit ''You are a highly knowledgeable virtual meeting assistant named RUBY. You help users summarize the meeting,provide semantic analysis,clear doubts with the meeting ,answer who said what,classify opening statements ,closing statements,takeaway point. Always ask follow-up questions to refine the meeting details.'']),
      (''user'', [Lit ''Question: '', Var ''input''])]"

section \<open>Program state\<close>

text \<open>
  Message dictionaries are objects: the list in \<open>st.session_state.history\<close> and the list
  \<open>history_to_save\<close> hold references to the same dictionaries, and \<open>save_chat_history\<close>
  assigns to a key of them. So the state has a store of message objects, and a history is
  a list of addresses. \<open>history = None\<close> is a session whose \<open>st.session_state\<close> has no
  key \<open>history\<close> yet. \<open>removable\<close> says whether the file system lets \<open>os.remove\<close>
  remove the history file. \<open>calls\<close> logs the calls to the external capabilities.
\<close>

type_synonym addr = nat

datatype call = Retrieve string | Complete prompt

record state =
  heap :: "addr \<Rightarrow> msg"
  next_addr :: addr
  history :: "addr list option"
  history_file :: "file_content option"
  removable :: bool
  calls :: "call list"

definition alloc :: "msg \<Rightarrow> state \<Rightarrow> addr \<times> state" where
  "alloc m s =
     (next_addr s, s\<lparr>heap := (heap s)(next_addr s := m), next_addr := Suc (next_addr s)\<rparr>)"

fun alloc_list :: "msg list \<Rightarrow> state \<Rightarrow> addr list \<times> state" where
  "alloc_list [] s = ([], s)"
| "alloc_list (m # ms) s =
     (let (a, s1) = alloc m s; (as, s2) = alloc_list ms s1 in (a # as, s2))"

text \<open>The messages a history holds, read through the store.\<close>

definition history_msgs :: "state \<Rightarrow> msg list" where
  "history_msgs s = (case history s of None \<Rightarrow> [] | Some h \<Rightarrow> map (heap s) h)"

section \<open>Persistence\<close>

definition load_chat_history :: "state \<Rightarrow> (error + addr list) \<times> state" where
  "load_chat_history s =
     (if os_path_exists (history_file s) then
        (case json_load (history_file s) of
           Inl e \<Rightarrow> (Inl e, s)
         | Inr ms \<Rightarrow> (let (as, s1) = alloc_list ms s in (Inr as, s1)))
      else (Inr [], s))"

text \<open>
  The loop of \<open>save_chat_history\<close>: \<open>msg['message'] = str(msg['message'])\<close> updates the
  object in the store, and the same reference is appended to \<open>history_to_save\<close>.
\<close>

fun coerce_payloads ::
  "env \<Rightarrow> addr list \<Rightarrow> (addr \<Rightarrow> msg) \<Rightarrow> addr list \<Rightarrow> (addr \<Rightarrow> msg) \<times> addr list" where
  "coerce_payloads env [] h history_to_save = (h, history_to_save)"
| "coerce_payloads env (a # rest) h history_to_save =
     (let h1 = (if is_dict (message (h a))
                then h(a := (h a)\<lparr>message := PStr (py_str env (message (h a)))\<rparr>)
                else h)
      in coerce_payloads env rest h1 (history_to_save @ [a]))"

definition save_chat_history :: "env \<Rightarrow> addr list \<Rightarrow> state \<Rightarrow> (error + unit) \<times> state" where
  "save_chat_history env hist s =
     (let (h1, history_to_save) = coerce_payloads env hist (heap s) [];
          (r, f1) = json_dump (map h1 history_to_save)
      in (r, s\<lparr>heap := h1, history_file := f1\<rparr>))"

definition clear_chat_history :: "state \<Rightarrow> (error + unit) \<times> state" where
  "clear_chat_history s =
     (if os_path_exists (history_file s) then
        (case os_remove (removable s) (history_file s) of
           Inl e \<Rightarrow> (Inl e, s)
         | Inr f1 \<Rightarrow> (Inr (), s\<lparr>history_file := f1\<rparr>))
      else (Inr (), s))"

section \<open>Session and turns\<close>

definition initialize_session_state :: "state \<Rightarrow> (error + unit) \<times> state" where
  "initialize_session_state s =
     (case history s of
        None \<Rightarrow>
          (case load_chat_history s of
             (Inl e, s1) \<Rightarrow> (Inl e, s1)
           | (Inr h, s1) \<Rightarrow> (Inr (), s1\<lparr>history := Some h\<rparr>))
      | Some h \<Rightarrow> (Inr (), s))"

text \<open>A restart: a new session has an empty \<open>st.session_state\<close>; the file stays.\<close>

definition restart :: "state \<Rightarrow> state" where
  "restart s = s\<lparr>history := None\<rparr>"

text \<open>
  \<open>create_retrieval_chain(retriever, create_stuff_documents_chain(llm, prompt))\<close>: the
  retriever is asked with the value of the key \<open>input\<close>, the texts of the documents it
  returns are joined by a blank line into \<open>context\<close>, and the prompt is formatted from
  the same dictionary, so its \<open>{input}\<close> is the value the caller passed under \<open>input\<close>.
  The result is what \<open>response['answer']\<close> reads.
\<close>

definition retrieval_chain :: "env \<Rightarrow> string \<Rightarrow> state \<Rightarrow> (error + string) \<times> state" where
  "retrieval_chain env inp s =
     (let s1 = s\<lparr>calls := calls s @ [Retrieve inp]\<rparr> in
      case retriever env inp of
        Inl e \<Rightarrow> (Inl e, s1)
      | Inr docs \<Rightarrow>
          (case format_messages
                  [''input'' \<mapsto> inp, ''context'' \<mapsto> str_join ''\<newline>\<newline>'' docs]
                  grounded_template of
             Inl e \<Rightarrow> (Inl e, s1)
           | Inr p \<Rightarrow> (llm env p, s1\<lparr>calls := calls s1 @ [Complete p]\<rparr>)))"

text \<open>\<open>general_prompt | llm | StrOutputParser()\<close>.\<close>

definition general_chain :: "env \<Rightarrow> string \<Rightarrow> state \<Rightarrow> (error + string) \<times> state" where
  "general_chain env inp s =
     (case format_messages [''input'' \<mapsto> inp] general_template of
        Inl e \<Rightarrow> (Inl e, s)
      | Inr p \<Rightarrow> (llm env p, s\<lparr>calls := calls s @ [Complete p]\<rparr>))"

text \<open>The context string \<open>on_click_callback\<close> builds from the history.\<close>

definition context_of :: "env \<Rightarrow> msg list \<Rightarrow> string" where
  "context_of env ms =
     str_join ''\<newline>'' (map (\<lambda>m. str_of env (origin m) @ '': '' @ str_of env (message m)) ms)"

definition on_click_callback :: "env \<Rightarrow> string \<Rightarrow> state \<Rightarrow> (error + unit) \<times> state" where
  "on_click_callback env user_input s =
     (case history s of
        None \<Rightarrow> (Inl AttributeError, s)
      | Some h \<Rightarrow>
          (let context = context_of env (map (heap s) h);
               (r, s1) = (if is_coimbatore_query user_input
                          then retrieval_chain env (context @ ''\<newline>'' @ user_input) s
                          else general_chain env (context @ ''\<newline>'' @ user_input) s)
           in case r of
                Inl e \<Rightarrow> (Inl e, s1)
              | Inr answer \<Rightarrow>
                  (let (a1, s2) = alloc \<lparr>origin = PStr ''human'', message = PStr user_input\<rparr> s1;
                       (a2, s3) = alloc \<lparr>origin = PStr ''ai'', message = PStr answer\<rparr> s2;
                       s4 = s3\<lparr>history := Some (h @ [a1, a2])\<rparr>
                   in save_chat_history env (h @ [a1, a2]) s4)))"

text \<open>The handler of the button "New Chat".\<close>

definition new_chat :: "state \<Rightarrow> (error + unit) \<times> state" where
  "new_chat s = clear_chat_history (s\<lparr>history := Some []\<rparr>)"

section \<open>Notions used to state the properties\<close>

text \<open>The effect of one pass of the loop of \<open>save_chat_history\<close> on a message.\<close>

definition coerce_msg :: "env \<Rightarrow> msg \<Rightarrow> msg" where
  "coerce_msg env m =
     (if is_dict (message m) then m\<lparr>message := PStr (py_str env (message m))\<rparr> else m)"

text \<open>The string \<open>on_click_callback\<close> passes to a chain under the key \<open>input\<close>.\<close>

definition turn_input :: "env \<Rightarrow> string \<Rightarrow> state \<Rightarrow> addr list \<Rightarrow> string" where
  "turn_input env q s h = context_of env (map (heap s) h) @ ''\<newline>'' @ q"

text \<open>The contents of the \<open>human\<close> messages of the prompts sent to the model.\<close>

fun human_contents :: "call list \<Rightarrow> string list" where
  "human_contents [] = []"
| "human_contents (Retrieve q # cs) = human_contents cs"
| "human_contents (Complete p # cs) =
     map snd (filter (\<lambda>rc. fst rc = ''human'') p) @ human_contents cs"





section \<open>Concrete capabilities and sessions\<close>

text \<open>
  A retriever that returns one chunk and a model that returns one answer; \<open>py_str\<close> is
  Python's \<open>str\<close> on the empty dictionary and on \<open>None\<close>. In \<open>failing_env\<close> the model
  raises.
\<close>

definition demo_env :: env where
  "demo_env =
     \<lparr>py_str = (\<lambda>v. if v = PDict [] then ''{}'' else if v = PNone then ''None'' else ''<object>''),
      retriever = (\<lambda>q. Inr [''The meeting starts at 10am on Tuesday'']),
      llm = (\<lambda>p. Inr ''10am on Tuesday'')\<rparr>"

definition failing_env :: env where
  "failing_env = demo_env\<lparr>llm := (\<lambda>p. Inl GenerationError)\<rparr>"

text \<open>
  A process that has just started, with the history file as given, and the session after
  \<open>initialize_session_state\<close> has run.
\<close>

definition process_start :: "file_content option \<Rightarrow> state" where
  "process_start f =
     \<lparr>heap = (\<lambda>a. \<lparr>origin = PNone, message = PNone\<rparr>), next_addr = 0, history = None,
      history_file = f, removable = True, calls = []\<rparr>"

definition session_start :: "file_content option \<Rightarrow> state" where
  "session_start f = snd (initialize_session_state (process_start f))"

definition greeting :: "msg list" where
  "greeting = [\<lparr>origin = PStr ''human'', message = PStr ''hi''\<rparr>,
               \<lparr>origin = PStr ''ai'', message = PStr ''hello''\<rparr>]"

definition dict_payloads :: "msg list" where
  "dict_payloads = [\<lparr>origin = PStr ''ai'', message = PDict []\<rparr>,
                    \<lparr>origin = PStr ''human'', message = PStr ''hi''\<rparr>]"

text \<open>A session whose history file is there and cannot be removed.\<close>

definition locked_session :: state where
  "locked_session = (session_start (Some (Json greeting)))\<lparr>removable := False\<rparr>"

text \<open>A session whose history holds a \<open>Document\<close> object as a payload.\<close>

definition document_session :: state where
  "document_session =
     (session_start None)\<lparr>heap := (heap (session_start None))
                               (0 := \<lparr>origin = PStr ''ai'', message = PObj ''Document''\<rparr>),
                           next_addr := 1, history := Some [0]\<rparr>"

section \<open>Routing: the trigger keyword\<close>

lemma startswith_iff: "startswith s p \<longleftrightarrow> (\<exists>post. s = p @ post)"
  by (induction s p rule: startswith.induct) auto

lemma contains_iff: "contains needle s \<longleftrightarrow> (\<exists>pre post. s = pre @ needle @ post)"
proof (induction s)
  case Nil
  then show ?case by auto
next
  case (Cons c s)
  show ?case
  proof
    assume "contains needle (c # s)"
    then consider "startswith (c # s) needle" | "contains needle s" by auto
    then show "\<exists>pre post. c # s = pre @ needle @ post"
    proof cases
      case 1
      then obtain post where "c # s = needle @ post" by (auto simp: startswith_iff)
      then have "c # s = [] @ needle @ post" by simp
      then show ?thesis by blast
    next
      case 2
      then obtain pre post where "s = pre @ needle @ post" using Cons.IH by auto
      then have "c # s = (c # pre) @ needle @ post" by simp
      then show ?thesis by blast
    qed
  next
    assume "\<exists>pre post. c # s = pre @ needle @ post"
    then obtain pre post where eq: "c # s = pre @ needle @ post" by blast
    show "contains needle (c # s)"
    proof (cases pre)
      case Nil
      with eq have "startswith (c # s) needle" by (auto simp: startswith_iff)
      then show ?thesis by simp
    next
      case (Cons d pre')
      with eq have "s = pre' @ needle @ post" by simp
      then have "contains needle s" using Cons.IH by blast
      then show ?thesis by simp
    qed
  qed
qed

lemma lower_split:
  "(\<exists>pre post. lower q = pre @ k @ post) \<longleftrightarrow>
     (\<exists>a b c. q = a @ b @ c \<and> lower b = k)"
proof
  assume "\<exists>pre post. lower q = pre @ k @ post"
  then obtain pre post where "map lower_char q = pre @ k @ post"
    by (auto simp: lower_def)
  then obtain a r where q: "q = a @ r" and r: "map lower_char r = k @ post"
    by (metis map_eq_append_conv)
  from r obtain b c where "r = b @ c" and "map lower_char b = k"
    by (metis map_eq_append_conv)
  with q have "q = a @ b @ c \<and> lower b = k" by (simp add: lower_def)
  then show "\<exists>a b c. q = a @ b @ c \<and> lower b = k" by blast
next
  assume "\<exists>a b c. q = a @ b @ c \<and> lower b = k"
  then obtain a b c where "q = a @ b @ c" and "lower b = k" by blast
  then have "lower q = lower a @ k @ lower c" by (auto simp: lower_def)
  then show "\<exists>pre post. lower q = pre @ k @ post" by blast
qed

text \<open>
  C1. \<open>classify q\<close> is \<open>Grounded\<close> exactly when some substring of \<open>q\<close> lower-cases to
  the keyword \<open>meeting\<close>, and \<open>General\<close> otherwise. \<open>classify\<close> is a function of the
  query alone: it takes and returns no program state.
\<close>

theorem classify_grounded_iff_keyword:
  "(classify q = Grounded \<longleftrightarrow> (\<exists>pre mid post. q = pre @ mid @ post \<and> lower mid = ''meeting''))
   \<and> (classify q = General \<longleftrightarrow> \<not> (\<exists>pre mid post. q = pre @ mid @ post \<and> lower mid = ''meeting''))"
proof -
  have "is_coimbatore_query q \<longleftrightarrow>
          (\<exists>pre mid post. q = pre @ mid @ post \<and> lower mid = ''meeting'')"
    unfolding is_coimbatore_query_def contains_iff lower_split by simp
  then show ?thesis by (simp add: classify_def)
qed

text \<open>
  Witness of C1: the two spellings of the specification are routed alike, and a query
  without the keyword is general.
\<close>

theorem classify_witness:
  "classify ''MEETING notes'' = Grounded \<and> classify ''meeting notes'' = Grounded
   \<and> (\<exists>pre mid post. ''MEETING notes'' = pre @ mid @ post \<and> lower mid = ''meeting'')
   \<and> classify ''tell me a joke'' = General"
proof -
  have "classify ''MEETING notes'' = Grounded" "classify ''meeting notes'' = Grounded"
    "classify ''tell me a joke'' = General" by code_simp+
  then show ?thesis using classify_grounded_iff_keyword[of "''MEETING notes''"] by simp
qed

section \<open>The store, the chains and one turn\<close>

lemma coerce_payloads_snd: "snd (coerce_payloads env hist h acc) = acc @ hist"
  by (induction hist arbitrary: h acc) (auto simp: Let_def)

lemma coerce_payloads_fst:
  "fst (coerce_payloads env hist h acc) a =
     (if a \<in> set hist then coerce_msg env (h a) else h a)"
  by (induction hist arbitrary: h acc) (auto simp: Let_def coerce_msg_def)

lemma coerce_msg_str: "is_str (message m) \<Longrightarrow> coerce_msg env m = m"
  by (cases "message m") (simp_all add: coerce_msg_def)

lemma is_str_serializable: "is_str v \<Longrightarrow> json_serializable v"
  by (cases v) simp_all

lemma alloc_list_props:
  "alloc_list ms s = (as, s1) \<Longrightarrow>
     map (heap s1) as = ms \<and> as = [next_addr s ..< next_addr s + length ms]
     \<and> next_addr s1 = next_addr s + length ms
     \<and> (\<forall>a. a < next_addr s \<longrightarrow> heap s1 a = heap s a)
     \<and> history s1 = history s \<and> history_file s1 = history_file s \<and> calls s1 = calls s"
proof (induction ms arbitrary: s as s1)
  case Nil
  then show ?case by simp
next
  case (Cons m ms)
  obtain as' s' where r: "alloc_list ms (snd (alloc m s)) = (as', s')" by fastforce
  from Cons.IH[OF r] Cons.prems r show ?case
    by (auto simp: alloc_def Let_def upt_rec split: prod.splits)
qed

lemma save_chat_history_effect:
  assumes "save_chat_history env hist s = (r, s1)"
  shows "heap s1 = (\<lambda>a. if a \<in> set hist then coerce_msg env (heap s a) else heap s a)"
    and "history s1 = history s" and "next_addr s1 = next_addr s" and "calls s1 = calls s"
    and "(r, history_file s1) = json_dump (map (heap s1) hist)"
proof -
  obtain h1 hts where c: "coerce_payloads env hist (heap s) [] = (h1, hts)" by fastforce
  have hts: "hts = hist" using coerce_payloads_snd[of env hist "heap s" "[]"] c by simp
  have h1: "h1 = (\<lambda>a. if a \<in> set hist then coerce_msg env (heap s a) else heap s a)"
    using coerce_payloads_fst[of env hist "heap s" "[]"] c by auto
  from assms c hts have s1: "s1 = s\<lparr>heap := h1, history_file := snd (json_dump (map h1 hist))\<rparr>"
    and r: "r = fst (json_dump (map h1 hist))"
    by (auto simp: save_chat_history_def split: prod.splits)
  show "heap s1 = (\<lambda>a. if a \<in> set hist then coerce_msg env (heap s a) else heap s a)"
    using s1 h1 by simp
  show "history s1 = history s" "next_addr s1 = next_addr s" "calls s1 = calls s"
    using s1 by simp_all
  show "(r, history_file s1) = json_dump (map (heap s1) hist)"
    using s1 r by simp
qed

lemma format_grounded:
  "format_messages [''input'' \<mapsto> inp, ''context'' \<mapsto> c] grounded_template =
     (case fill [''context'' \<mapsto> c] coimbatore_prompt of
        Inl e \<Rightarrow> Inl e | Inr sys \<Rightarrow> Inr [(''system'', sys), (''human'', inp)])"
  by (simp add: grounded_template_def coimbatore_prompt_def)

lemma fill_coimbatore: "\<exists>sys. fill [''context'' \<mapsto> c] coimbatore_prompt = Inr sys"
  by (simp add: coimbatore_prompt_def)

lemma format_general:
  "format_messages [''input'' \<mapsto> inp] general_template =
     Inr [(''system'', ''You are a highly knowledgeable virtual meeting assistant named RUBY. You help users summarize the meeting,provide semantic analysis,clear doubts with the meeting ,answer who said what,classify opening statements ,closing statements,takeaway point. Always ask follow-up questions to refine the meeting details.''),
          (''user'', ''Question: '' @ inp)]"
  by (simp add: general_template_def)

lemma retrieval_chain_cases:
  assumes "retrieval_chain env inp s = (r, s1)"
  shows "(\<exists>e. retriever env inp = Inl e \<and> r = Inl e
              \<and> s1 = s\<lparr>calls := calls s @ [Retrieve inp]\<rparr>)
       \<or> (\<exists>docs sys. retriever env inp = Inr docs
              \<and> fill [''context'' \<mapsto> str_join ''\<newline>\<newline>'' docs] coimbatore_prompt = Inr sys
              \<and> r = llm env [(''system'', sys), (''human'', inp)]
              \<and> s1 = s\<lparr>calls := calls s @ [Retrieve inp,
                                              Complete [(''system'', sys), (''human'', inp)]]\<rparr>)"
proof (cases "retriever env inp")
  case (Inl e)
  with assms show ?thesis by (auto simp: retrieval_chain_def Let_def)
next
  case (Inr docs)
  obtain sys where sys: "fill [''context'' \<mapsto> str_join ''\<newline>\<newline>'' docs] coimbatore_prompt = Inr sys"
    using fill_coimbatore by blast
  with assms Inr show ?thesis
    by (auto simp: retrieval_chain_def Let_def format_grounded)
qed

lemma general_chain_eq:
  "general_chain env inp s =
     (llm env (the_prompt), s\<lparr>calls := calls s @ [Complete the_prompt]\<rparr>)"
  if "format_messages [''input'' \<mapsto> inp] general_template = Inr the_prompt"
  using that by (simp add: general_chain_def)

lemma chain_frame:
  assumes "(if g then retrieval_chain env inp s else general_chain env inp s) = (r, s1)"
  shows "\<exists>cs. s1 = s\<lparr>calls := calls s @ cs\<rparr>
            \<and> (\<forall>p. Complete p \<in> set cs \<longrightarrow> r = llm env p)
            \<and> (\<forall>answer. r = Inr answer \<longrightarrow> (\<exists>p. Complete p \<in> set cs))"
proof (cases g)
  case True
  with assms have "retrieval_chain env inp s = (r, s1)" by simp
  from retrieval_chain_cases[OF this] show ?thesis
  proof (elim disjE exE conjE)
    fix e assume "r = Inl e" "s1 = s\<lparr>calls := calls s @ [Retrieve inp]\<rparr>"
    then show ?thesis by (intro exI[of _ "[Retrieve inp]"]) simp
  next
    fix docs sys
    assume "r = llm env [(''system'', sys), (''human'', inp)]"
      "s1 = s\<lparr>calls := calls s @ [Retrieve inp, Complete [(''system'', sys), (''human'', inp)]]\<rparr>"
    then show ?thesis
      by (intro exI[of _ "[Retrieve inp, Complete [(''system'', sys), (''human'', inp)]]"]) simp
  qed
next
  case False
  with assms have g: "general_chain env inp s = (r, s1)" by simp
  obtain p where p: "format_messages [''input'' \<mapsto> inp] general_template = Inr p"
    using format_general by blast
  from g show ?thesis unfolding general_chain_eq[OF p]
    by (intro exI[of _ "[Complete p]"]) auto
qed

lemma chain_answers:
  assumes ret: "\<And>x. \<exists>docs. retriever env x = Inr docs"
    and gen: "\<And>p. \<exists>answer. llm env p = Inr answer"
    and ch: "(if g then retrieval_chain env inp s else general_chain env inp s) = (r, s1)"
  shows "\<exists>answer. r = Inr answer"
proof (cases g)
  case True
  with ch have "retrieval_chain env inp s = (r, s1)" by simp
  from retrieval_chain_cases[OF this] ret gen show ?thesis by (metis sum.distinct(1))
next
  case False
  obtain p where p: "format_messages [''input'' \<mapsto> inp] general_template = Inr p"
    using format_general by blast
  from False ch have "r = llm env p" by (simp add: general_chain_eq[OF p])
  with gen show ?thesis by simp
qed

lemma on_click_callback_unfold:
  assumes "history s = Some h"
    and "(if is_coimbatore_query q then retrieval_chain env (turn_input env q s h) s
          else general_chain env (turn_input env q s h) s) = (r, s1)"
  shows "on_click_callback env q s =
     (case r of
        Inl e \<Rightarrow> (Inl e, s1)
      | Inr answer \<Rightarrow>
          save_chat_history env (h @ [next_addr s1, Suc (next_addr s1)])
            (s1\<lparr>heap := (heap s1)(next_addr s1 := \<lparr>origin = PStr ''human'', message = PStr q\<rparr>,
                                   Suc (next_addr s1) := \<lparr>origin = PStr ''ai'', message = PStr answer\<rparr>),
                next_addr := Suc (Suc (next_addr s1)),
                history := Some (h @ [next_addr s1, Suc (next_addr s1)])\<rparr>))"
  using assms
  by (auto simp: on_click_callback_def turn_input_def Let_def alloc_def split: sum.splits)

lemma on_click_callback_outcomes:
  assumes h: "history s = Some h" and run: "on_click_callback env q s = (res, s')"
  defines "n \<equiv> next_addr s"
  shows "\<exists>cs. calls s' = calls s @ cs \<and>
     ((\<exists>e. res = Inl e \<and> s' = s\<lparr>calls := calls s @ cs\<rparr>
            \<and> (\<forall>p. Complete p \<in> set cs \<longrightarrow> llm env p = Inl e))
      \<or> (\<exists>answer. (\<exists>p. Complete p \<in> set cs)
            \<and> (\<forall>p. Complete p \<in> set cs \<longrightarrow> llm env p = Inr answer)
            \<and> history s' = Some (h @ [n, Suc n]) \<and> next_addr s' = Suc (Suc n)
            \<and> heap s' = (\<lambda>a. if a \<in> set (h @ [n, Suc n])
                  then coerce_msg env (((heap s)(n := \<lparr>origin = PStr ''human'', message = PStr q\<rparr>,
                           Suc n := \<lparr>origin = PStr ''ai'', message = PStr answer\<rparr>)) a)
                  else ((heap s)(n := \<lparr>origin = PStr ''human'', message = PStr q\<rparr>,
                           Suc n := \<lparr>origin = PStr ''ai'', message = PStr answer\<rparr>)) a)
            \<and> (res, history_file s') = json_dump (map (heap s') (h @ [n, Suc n]))))"
proof -
  obtain r s1 where ch: "(if is_coimbatore_query q then retrieval_chain env (turn_input env q s h) s
          else general_chain env (turn_input env q s h) s) = (r, s1)" by fastforce
  from chain_frame[OF ch] obtain cs where s1: "s1 = s\<lparr>calls := calls s @ cs\<rparr>"
    and same: "\<forall>p. Complete p \<in> set cs \<longrightarrow> r = llm env p"
    and some: "\<forall>answer. r = Inr answer \<longrightarrow> (\<exists>p. Complete p \<in> set cs)" by blast
  note unf = on_click_callback_unfold[OF h ch]
  show ?thesis
  proof (cases r)
    case (Inl e)
    with unf run have "res = Inl e" "s' = s1" by simp_all
    with s1 same Inl show ?thesis by (intro exI[of _ cs]) auto
  next
    case (Inr answer)
    let ?hist = "h @ [n, Suc n]"
    let ?s2 = "s1\<lparr>heap := (heap s1)(n := \<lparr>origin = PStr ''human'', message = PStr q\<rparr>,
                                   Suc n := \<lparr>origin = PStr ''ai'', message = PStr answer\<rparr>),
                next_addr := Suc (Suc n), history := Some ?hist\<rparr>"
    have n1: "next_addr s1 = n" using s1 by (simp add: n_def)
    from unf run Inr n1 have sv: "save_chat_history env ?hist ?s2 = (res, s')" by simp
    note eff = save_chat_history_effect[OF sv]
    have "calls s' = calls s @ cs" using eff(4) s1 by simp
    moreover have "history s' = Some ?hist" using eff(2) by simp
    moreover have "next_addr s' = Suc (Suc n)" using eff(3) by simp
    moreover have "heap s' = (\<lambda>a. if a \<in> set ?hist
                  then coerce_msg env (((heap s)(n := \<lparr>origin = PStr ''human'', message = PStr q\<rparr>,
                           Suc n := \<lparr>origin = PStr ''ai'', message = PStr answer\<rparr>)) a)
                  else ((heap s)(n := \<lparr>origin = PStr ''human'', message = PStr q\<rparr>,
                           Suc n := \<lparr>origin = PStr ''ai'', message = PStr answer\<rparr>)) a)"
      using eff(1) s1 by (simp cong: if_cong)
    moreover have "(res, history_file s') = json_dump (map (heap s') ?hist)" using eff(5) .
    moreover have "\<exists>p. Complete p \<in> set cs" using some Inr by blast
    moreover have "\<forall>p. Complete p \<in> set cs \<longrightarrow> llm env p = Inr answer" using same Inr by auto
    ultimately show ?thesis by (intro exI[of _ cs]) blast
  qed
qed

lemma grounded_turn_calls:
  assumes h: "history s = Some h" and g: "is_coimbatore_query q"
    and run: "on_click_callback env q s = (res, s1)"
  defines "inp \<equiv> context_of env (history_msgs s) @ ''\<newline>'' @ q"
  shows "(\<exists>e. retriever env inp = Inl e \<and> res = Inl e \<and> calls s1 = calls s @ [Retrieve inp])
       \<or> (\<exists>docs sys. retriever env inp = Inr docs
              \<and> fill [''context'' \<mapsto> str_join ''\<newline>\<newline>'' docs] coimbatore_prompt = Inr sys
              \<and> calls s1 = calls s @ [Retrieve inp, Complete [(''system'', sys), (''human'', inp)]])"
proof -
  have inp: "inp = turn_input env q s h"
    by (simp add: inp_def turn_input_def history_msgs_def h)
  obtain r s' where ch: "retrieval_chain env inp s = (r, s')" by fastforce
  with g have ch': "(if is_coimbatore_query q then retrieval_chain env (turn_input env q s h) s
          else general_chain env (turn_input env q s h) s) = (r, s')" by (simp add: inp)
  note unf = on_click_callback_unfold[OF h ch']
  have calls: "calls s1 = calls s'"
  proof (cases r)
    case (Inl e)
    with unf run show ?thesis by simp
  next
    case (Inr answer)
    with unf run obtain hist s2 where "save_chat_history env hist s2 = (res, s1)"
      and "calls s2 = calls s'" by simp
    with save_chat_history_effect(4)[of env hist s2 res s1] show ?thesis by simp
  qed
  have res: "r = Inl e \<Longrightarrow> res = Inl e" for e using unf run by simp
  from retrieval_chain_cases[OF ch] show ?thesis
  proof (elim disjE exE conjE)
    fix e assume "retriever env inp = Inl e" "r = Inl e" "s' = s\<lparr>calls := calls s @ [Retrieve inp]\<rparr>"
    with calls res show ?thesis by simp
  next
    fix docs sys
    assume "retriever env inp = Inr docs"
      "fill [''context'' \<mapsto> str_join ''\<newline>\<newline>'' docs] coimbatore_prompt = Inr sys"
      "s' = s\<lparr>calls := calls s @ [Retrieve inp, Complete [(''system'', sys), (''human'', inp)]]\<rparr>"
    with calls show ?thesis by simp
  qed
qed

lemma on_click_callback_total:
  assumes h: "history s = Some h"
    and al: "list_all (\<lambda>a. a < next_addr s) h"
    and st: "list_all (\<lambda>a. is_str (message (heap s a)) \<and> json_serializable (origin (heap s a))) h"
    and ret: "\<And>x. \<exists>docs. retriever env x = Inr docs"
    and gen: "\<And>p. \<exists>answer. llm env p = Inr answer"
  shows "\<exists>s'. on_click_callback env q s = (Inr (), s')
           \<and> history s' = Some (h @ [next_addr s, Suc (next_addr s)])
           \<and> next_addr s' = Suc (Suc (next_addr s))
           \<and> list_all (\<lambda>a. is_str (message (heap s' a)) \<and> json_serializable (origin (heap s' a)))
                (h @ [next_addr s, Suc (next_addr s)])"
proof -
  define n where "n = next_addr s"
  define hist where "hist = h @ [n, Suc n]"
  obtain r s1 where ch: "(if is_coimbatore_query q
        then retrieval_chain env (turn_input env q s h) s
        else general_chain env (turn_input env q s h) s) = (r, s1)" by fastforce
  from chain_answers[OF ret gen ch] obtain answer where r: "r = Inr answer" by blast
  from chain_frame[OF ch] obtain cs where s1: "s1 = s\<lparr>calls := calls s @ cs\<rparr>" by blast
  define H where "H = (heap s)(n := \<lparr>origin = PStr ''human'', message = PStr q\<rparr>,
                               Suc n := \<lparr>origin = PStr ''ai'', message = PStr answer\<rparr>)"
  define s2 where "s2 = s1\<lparr>heap := H, next_addr := Suc (Suc n), history := Some hist\<rparr>"
  obtain res s' where sv: "save_chat_history env hist s2 = (res, s')" by fastforce
  have run: "on_click_callback env q s = (res, s')"
    using on_click_callback_unfold[OF h ch] r s1 sv
    by (simp add: s2_def H_def hist_def n_def)
  note eff = save_chat_history_effect[OF sv]
  have good_H: "is_str (message (H a)) \<and> json_serializable (origin (H a))" if "a \<in> set hist" for a
  proof (cases "a \<in> set h")
    case True
    with al have "a < n" by (simp add: list_all_iff n_def)
    then have "H a = heap s a" by (simp add: H_def)
    with st True show ?thesis by (simp add: list_all_iff)
  next
    case False
    with that have "a = n \<or> a = Suc n" by (simp add: hist_def)
    then show ?thesis by (auto simp: H_def)
  qed
  have heap': "heap s' a = H a" if "a \<in> set hist" for a
    using good_H[OF that] that by (simp add: eff(1) s2_def coerce_msg_str)
  have good: "list_all (\<lambda>a. is_str (message (heap s' a)) \<and> json_serializable (origin (heap s' a))) hist"
    using good_H heap' by (simp add: list_all_iff)
  then have "list_all (\<lambda>m. json_serializable (origin m) \<and> json_serializable (message m))
               (map (heap s') hist)"
    by (auto simp: list_all_iff is_str_serializable)
  with eff(5) have "res = Inr ()" by (simp add: json_dump_def)
  moreover have "history s' = Some hist" using eff(2) by (simp add: s2_def)
  moreover have "next_addr s' = Suc (Suc n)" using eff(3) by (simp add: s2_def)
  ultimately show ?thesis using run good unfolding hist_def n_def by blast
qed

lemma clear_chat_history_eq:
  "clear_chat_history s =
     (if history_file s \<noteq> None \<and> \<not> removable s then (Inl PermissionError, s)
      else (Inr (), s\<lparr>history_file := None\<rparr>))"
  by (cases "history_file s")
     (auto simp: clear_chat_history_def os_path_exists_def os_remove_def)

lemma new_chat_eq:
  "new_chat s =
     (if history_file s \<noteq> None \<and> \<not> removable s then (Inl PermissionError, s\<lparr>history := Some []\<rparr>)
      else (Inr (), s\<lparr>history := Some [], history_file := None\<rparr>))"
  by (simp add: new_chat_def clear_chat_history_eq)

lemma demo_session_facts:
  "history (session_start (Some (Json greeting))) = Some [0, 1]"
  "history_msgs (session_start (Some (Json greeting))) = greeting"
  "calls (session_start (Some (Json greeting))) = []"
  "is_coimbatore_query ''when is the meeting?''"
  "context_of demo_env greeting @ ''\<newline>'' @ ''when is the meeting?''
     = ''human: hi\<newline>ai: hello\<newline>when is the meeting?''"
  by code_simp+

lemma empty_session_facts:
  "history (session_start None) = Some []"
  "calls (session_start None) = []"
  "history_file (session_start None) = None"
  "history_msgs (session_start None) = []"
  "next_addr (session_start None) = 0"
  by code_simp+

section \<open>Context, retrieval input and prompt input\<close>

text \<open>
  C2, as amended. In a grounded turn the context is the messages of the history, each
  formatted as origin, colon, space, payload, joined by newlines in the order of the
  history; the retriever is asked with the context, a newline and the query; and the
  \<open>human\<close> message of the prompt, which is the template's \<open>{input}\<close>, is that same
  string, not the query alone. The \<open>{context}\<close> of the system message is the retrieved
  texts joined by blank lines.
\<close>

theorem grounded_turn_inputs:
  assumes "history s = Some h" and "is_coimbatore_query q"
    and "on_click_callback env q s = (res, s1)"
  shows "context_of env (history_msgs s) =
           str_join ''\<newline>''
             (map (\<lambda>m. str_of env (origin m) @ '': '' @ str_of env (message m)) (history_msgs s))
       \<and> ((\<exists>e. retriever env (context_of env (history_msgs s) @ ''\<newline>'' @ q) = Inl e
               \<and> res = Inl e
               \<and> calls s1 = calls s @ [Retrieve (context_of env (history_msgs s) @ ''\<newline>'' @ q)])
          \<or> (\<exists>docs sys.
                 retriever env (context_of env (history_msgs s) @ ''\<newline>'' @ q) = Inr docs
               \<and> fill [''context'' \<mapsto> str_join ''\<newline>\<newline>'' docs] coimbatore_prompt = Inr sys
               \<and> calls s1 = calls s @
                    [Retrieve (context_of env (history_msgs s) @ ''\<newline>'' @ q),
                     Complete [(''system'', sys),
                               (''human'', context_of env (history_msgs s) @ ''\<newline>'' @ q)]]))"
  using grounded_turn_calls[OF assms] by (simp add: context_of_def)

text \<open>
  Witness of C2: a grounded query after one exchange.
\<close>

theorem grounded_turn_inputs_witness:
  "history (session_start (Some (Json greeting))) = Some [0, 1]
   \<and> is_coimbatore_query ''when is the meeting?''
   \<and> (\<exists>sys. calls (snd (on_click_callback demo_env ''when is the meeting?''
                          (session_start (Some (Json greeting))))) =
          [Retrieve ''human: hi\<newline>ai: hello\<newline>when is the meeting?'',
           Complete [(''system'', sys),
                     (''human'', ''human: hi\<newline>ai: hello\<newline>when is the meeting?'')]])"
proof -
  let ?s = "session_start (Some (Json greeting))"
  obtain res s1 where run: "on_click_callback demo_env ''when is the meeting?'' ?s = (res, s1)"
    by fastforce
  have r: "retriever demo_env x = Inr [''The meeting starts at 10am on Tuesday'']" for x
    by (simp add: demo_env_def)
  from grounded_turn_inputs[OF demo_session_facts(1) demo_session_facts(4) run]
  have "\<exists>sys. calls s1 = [Retrieve ''human: hi\<newline>ai: hello\<newline>when is the meeting?'',
     Complete [(''system'', sys), (''human'', ''human: hi\<newline>ai: hello\<newline>when is the meeting?'')]]"
    unfolding demo_session_facts r by auto
  with run demo_session_facts(1,4) show ?thesis by simp
qed

text \<open>
  Counterexample to C2 as stated: after the exchange "hi" / "hello", the query
  "when is the meeting?" reaches the prompt prefixed by the context.
\<close>

theorem grounded_input_is_not_raw_query:
  "human_contents (calls (snd (on_click_callback demo_env ''when is the meeting?''
            (session_start (Some (Json greeting))))))
     = [''human: hi\<newline>ai: hello\<newline>when is the meeting?'']
   \<and> human_contents (calls (snd (on_click_callback demo_env ''when is the meeting?''
            (session_start (Some (Json greeting))))))
     \<noteq> [''when is the meeting?'']"
proof -
  let ?s = "session_start (Some (Json greeting))"
  obtain res s1 where run: "on_click_callback demo_env ''when is the meeting?'' ?s = (res, s1)"
    by fastforce
  have r: "retriever demo_env x = Inr [''The meeting starts at 10am on Tuesday'']" for x
    by (simp add: demo_env_def)
  from grounded_turn_calls[OF demo_session_facts(1) demo_session_facts(4) run]
  obtain sys where "calls s1 = [Retrieve ''human: hi\<newline>ai: hello\<newline>when is the meeting?'',
     Complete [(''system'', sys), (''human'', ''human: hi\<newline>ai: hello\<newline>when is the meeting?'')]]"
    unfolding demo_session_facts r by auto
  then have "human_contents (calls s1) = [''human: hi\<newline>ai: hello\<newline>when is the meeting?'']"
    by simp
  with run show ?thesis by simp
qed

section \<open>Loading the history\<close>

text \<open>
  C3, as amended. \<open>load_chat_history\<close> returns the empty history when the file is
  absent, and the records of the file when it holds a JSON array; when the file exists and
  \<open>json.load\<close> rejects its text, the error is raised to the caller, and
  \<open>initialize_session_state\<close> passes it on. There is no handler.
\<close>

theorem load_chat_history_outcomes:
  "(history_file s = None \<longrightarrow> load_chat_history s = (Inr [], s))
   \<and> (history_file s = Some Malformed \<longrightarrow>
        load_chat_history s = (Inl JSONDecodeError, s)
        \<and> (history s = None \<longrightarrow> initialize_session_state s = (Inl JSONDecodeError, s)))
   \<and> (\<forall>ms. history_file s = Some (Json ms) \<longrightarrow>
        (\<exists>as s1. load_chat_history s = (Inr as, s1) \<and> map (heap s1) as = ms
                 \<and> history_file s1 = history_file s))"
proof -
  have "\<exists>as s1. load_chat_history s = (Inr as, s1) \<and> map (heap s1) as = ms
                 \<and> history_file s1 = history_file s"
    if f: "history_file s = Some (Json ms)" for ms
  proof -
    obtain as s1 where al: "alloc_list ms s = (as, s1)" by fastforce
    from alloc_list_props[OF al] have "map (heap s1) as = ms"
      "history_file s1 = history_file s" by blast+
    with f al show ?thesis
      by (simp add: load_chat_history_def os_path_exists_def json_load_def)
  qed
  then show ?thesis
    by (auto simp: load_chat_history_def os_path_exists_def json_load_def
        initialize_session_state_def)
qed

text \<open>
  Witness of C3: the three states of the file.
\<close>

theorem load_chat_history_outcomes_witness:
  "load_chat_history (process_start None) = (Inr [], process_start None)
   \<and> load_chat_history (process_start (Some Malformed))
       = (Inl JSONDecodeError, process_start (Some Malformed))
   \<and> initialize_session_state (process_start (Some Malformed))
       = (Inl JSONDecodeError, process_start (Some Malformed))
   \<and> (\<exists>as s1. load_chat_history (process_start (Some (Json greeting))) = (Inr as, s1)
                \<and> map (heap s1) as = greeting)"
proof -
  have f: "history_file (process_start f) = f" "history (process_start f) = None" for f
    by (simp_all add: process_start_def)
  show ?thesis
    using load_chat_history_outcomes[of "process_start None"]
      load_chat_history_outcomes[of "process_start (Some Malformed)"]
      load_chat_history_outcomes[of "process_start (Some (Json greeting))"]
    by (simp add: f) blast
qed

text \<open>
  Counterexample to C3 as stated: with a file that is not JSON, loading raises.
\<close>

theorem load_chat_history_raises_on_malformed:
  "fst (load_chat_history (process_start (Some Malformed))) = Inl JSONDecodeError
   \<and> fst (initialize_session_state (process_start (Some Malformed))) = Inl JSONDecodeError"
  by code_simp

section \<open>Saving and loading\<close>

text \<open>
  C4. For a history whose payloads are strings (and whose origins \<open>json.dump\<close> can
  serialise, as the two origins of the program are), saving succeeds and leaves the
  history as it was, and a restart followed by \<open>initialize_session_state\<close> yields a
  history with the same messages in the same order.
\<close>

theorem save_then_load_round_trip:
  assumes h: "history s = Some h"
    and ok: "list_all (\<lambda>a. is_str (message (heap s a)) \<and> json_serializable (origin (heap s a))) h"
  shows "\<exists>s1 s2. save_chat_history env h s = (Inr (), s1)
           \<and> history_msgs s1 = history_msgs s
           \<and> initialize_session_state (restart s1) = (Inr (), s2)
           \<and> history_msgs s2 = history_msgs s"
proof -
  obtain r s1 where sv: "save_chat_history env h s = (r, s1)" by fastforce
  note eff = save_chat_history_effect[OF sv]
  have same: "map (heap s1) h = map (heap s) h"
    using ok by (auto simp: eff(1) list_all_iff coerce_msg_str)
  have ser: "list_all (\<lambda>m. json_serializable (origin m) \<and> json_serializable (message m)) (map (heap s) h)"
  proof -
    have "json_serializable v" if "is_str v" for v using that by (cases v) simp_all
    with ok show ?thesis by (auto simp: list_all_iff)
  qed
  from eff(5) same ser have r: "r = Inr ()" and f: "history_file s1 = Some (Json (map (heap s) h))"
    by (auto simp: json_dump_def)
  have m1: "history_msgs s1 = history_msgs s"
    using same eff(2) h by (simp add: history_msgs_def)
  obtain as s2 where al: "alloc_list (map (heap s) h) (restart s1) = (as, s2)" by fastforce
  from alloc_list_props[OF al] have hp: "map (heap s2) as = map (heap s) h" by blast
  have ld: "load_chat_history (restart s1) = (Inr as, s2)"
    using f al by (simp add: load_chat_history_def restart_def os_path_exists_def json_load_def)
  have init: "initialize_session_state (restart s1) = (Inr (), s2\<lparr>history := Some as\<rparr>)"
    using ld by (simp add: initialize_session_state_def restart_def)
  have "history_msgs (s2\<lparr>history := Some as\<rparr>) = history_msgs s"
    using hp h by (simp add: history_msgs_def)
  with sv r m1 init show ?thesis by blast
qed

text \<open>
  Witness of C4: the exchange "hi" / "hello".
\<close>

theorem save_then_load_round_trip_witness:
  "history (session_start (Some (Json greeting))) = Some [0, 1]
   \<and> (\<exists>s1 s2. save_chat_history demo_env [0, 1] (session_start (Some (Json greeting))) = (Inr (), s1)
         \<and> initialize_session_state (restart s1) = (Inr (), s2)
         \<and> history_msgs s2 = greeting)"
proof -
  let ?s = "session_start (Some (Json greeting))"
  have ok: "list_all (\<lambda>a. is_str (message (heap ?s a)) \<and> json_serializable (origin (heap ?s a))) [0, 1]"
    by code_simp
  from save_then_load_round_trip[OF demo_session_facts(1) ok, of demo_env]
  show ?thesis by (auto simp: demo_session_facts)
qed

section \<open>A turn whose completion fails\<close>

text \<open>
  C5. If a turn calls the model with a prompt on which the model raises, the turn ends
  with that error and no answer, and the history, the message objects and the history
  file are as before the turn.
\<close>

theorem generation_failure_leaves_state:
  assumes h: "history s = Some h"
    and run: "on_click_callback env q s = (res, s1)"
    and cs: "calls s1 = calls s @ cs"
    and p: "Complete p \<in> set cs"
    and fail: "llm env p = Inl e"
  shows "res = Inl e \<and> history s1 = history s \<and> heap s1 = heap s
       \<and> history_msgs s1 = history_msgs s \<and> history_file s1 = history_file s
       \<and> next_addr s1 = next_addr s"
proof -
  from on_click_callback_outcomes[OF h run] obtain cs' where
    cs': "calls s1 = calls s @ cs'" and
    alt: "(\<exists>e. res = Inl e \<and> s1 = s\<lparr>calls := calls s @ cs'\<rparr>
            \<and> (\<forall>p. Complete p \<in> set cs' \<longrightarrow> llm env p = Inl e))
         \<or> (\<exists>answer. \<forall>p. Complete p \<in> set cs' \<longrightarrow> llm env p = Inr answer)"
    by blast
  from cs cs' have "cs' = cs" by simp
  with alt p fail obtain e' where "res = Inl e'" "s1 = s\<lparr>calls := calls s @ cs\<rparr>"
    "llm env p = Inl e'" by auto
  with fail h show ?thesis by (simp add: history_msgs_def)
qed

text \<open>
  Witness of C5: a grounded turn against a model that raises.
\<close>

theorem generation_failure_witness:
  "fst (on_click_callback failing_env ''when is the meeting?'' (session_start (Some (Json greeting))))
     = Inl GenerationError
   \<and> history_msgs (snd (on_click_callback failing_env ''when is the meeting?''
                          (session_start (Some (Json greeting))))) = greeting
   \<and> history_file (snd (on_click_callback failing_env ''when is the meeting?''
                          (session_start (Some (Json greeting))))) = Some (Json greeting)"
proof -
  let ?s = "session_start (Some (Json greeting))"
  obtain res s1 where run: "on_click_callback failing_env ''when is the meeting?'' ?s = (res, s1)"
    by fastforce
  have f: "history_file ?s = Some (Json greeting)" by code_simp
  from grounded_turn_calls[OF demo_session_facts(1) demo_session_facts(4) run]
  obtain cs p where cs: "calls s1 = calls ?s @ cs" and p: "Complete p \<in> set cs"
    by (auto simp: failing_env_def demo_env_def)
  have fail: "llm failing_env p = Inl GenerationError" by (simp add: failing_env_def)
  from generation_failure_leaves_state[OF demo_session_facts(1) run cs p fail] run f
  show ?thesis by (simp add: demo_session_facts)
qed

section \<open>Payloads that are not dictionaries\<close>

text \<open>
  C6 fails on the code: only payloads that are \<open>dict\<close> instances are converted. A
  \<open>Document\<close> object is not one: it stays in the history, \<open>json.dump\<close> raises
  \<open>TypeError\<close> and the file is left truncated. A list read from the file stays a list
  and is written as one.
\<close>

theorem save_chat_history_skips_non_dict_payloads:
  "fst (save_chat_history demo_env [0] document_session) = Inl TypeError
   \<and> history_file (snd (save_chat_history demo_env [0] document_session)) = Some Malformed
   \<and> message (heap (snd (save_chat_history demo_env [0] document_session)) 0) = PObj ''Document''
   \<and> history_file (snd (save_chat_history demo_env [0]
        (session_start (Some (Json [\<lparr>origin = PStr ''human'', message = PList [PStr ''a'']\<rparr>])))))
      = Some (Json [\<lparr>origin = PStr ''human'', message = PList [PStr ''a'']\<rparr>])"
  by code_simp

section \<open>Two turns\<close>

text \<open>
  C7. After two turns that both succeed, starting from the empty history, the history
  has four messages: the first query, its answer, the second query, its answer, with the
  origins \<open>human\<close>, \<open>ai\<close>, \<open>human\<close>, \<open>ai\<close>; the file holds the same four records.
\<close>

theorem two_turns_history:
  assumes h: "history s = Some []"
    and t1: "on_click_callback env q1 s = (Inr (), s1)"
    and t2: "on_click_callback env q2 s1 = (Inr (), s2)"
  shows "\<exists>a1 a2. history_msgs s1 =
            [\<lparr>origin = PStr ''human'', message = PStr q1\<rparr>,
             \<lparr>origin = PStr ''ai'', message = PStr a1\<rparr>]
         \<and> history_msgs s2 =
            [\<lparr>origin = PStr ''human'', message = PStr q1\<rparr>,
             \<lparr>origin = PStr ''ai'', message = PStr a1\<rparr>,
             \<lparr>origin = PStr ''human'', message = PStr q2\<rparr>,
             \<lparr>origin = PStr ''ai'', message = PStr a2\<rparr>]
         \<and> length (history_msgs s2) = 4
         \<and> history_file s2 = Some (Json (history_msgs s2))"
proof -
  define n where "n = next_addr s"
  from on_click_callback_outcomes[OF h t1] obtain a1 where
    h1: "history s1 = Some [n, Suc n]" and n1: "next_addr s1 = Suc (Suc n)" and
    hp1: "heap s1 = (\<lambda>a. if a \<in> set ([] @ [n, Suc n])
                  then coerce_msg env (((heap s)(n := \<lparr>origin = PStr ''human'', message = PStr q1\<rparr>,
                           Suc n := \<lparr>origin = PStr ''ai'', message = PStr a1\<rparr>)) a)
                  else ((heap s)(n := \<lparr>origin = PStr ''human'', message = PStr q1\<rparr>,
                           Suc n := \<lparr>origin = PStr ''ai'', message = PStr a1\<rparr>)) a)"
    unfolding n_def by auto
  have m1: "heap s1 n = \<lparr>origin = PStr ''human'', message = PStr q1\<rparr>"
       "heap s1 (Suc n) = \<lparr>origin = PStr ''ai'', message = PStr a1\<rparr>"
    by (simp_all add: hp1 coerce_msg_def)
  define k where "k = Suc (Suc n)"
  from on_click_callback_outcomes[OF h1 t2] obtain a2 where
    h2: "history s2 = Some ([n, Suc n] @ [k, Suc k])" and
    hp2: "heap s2 = (\<lambda>a. if a \<in> set ([n, Suc n] @ [k, Suc k])
                  then coerce_msg env (((heap s1)(k := \<lparr>origin = PStr ''human'', message = PStr q2\<rparr>,
                           Suc k := \<lparr>origin = PStr ''ai'', message = PStr a2\<rparr>)) a)
                  else ((heap s1)(k := \<lparr>origin = PStr ''human'', message = PStr q2\<rparr>,
                           Suc k := \<lparr>origin = PStr ''ai'', message = PStr a2\<rparr>)) a)" and
    f2: "(Inr () :: error + unit, history_file s2) = json_dump (map (heap s2) ([n, Suc n] @ [k, Suc k]))"
    unfolding n1 k_def by auto
  have m2: "heap s2 n = \<lparr>origin = PStr ''human'', message = PStr q1\<rparr>"
       "heap s2 (Suc n) = \<lparr>origin = PStr ''ai'', message = PStr a1\<rparr>"
       "heap s2 k = \<lparr>origin = PStr ''human'', message = PStr q2\<rparr>"
       "heap s2 (Suc k) = \<lparr>origin = PStr ''ai'', message = PStr a2\<rparr>"
    by (simp_all add: hp2 m1 coerce_msg_def k_def)
  have r1: "history_msgs s1 = [\<lparr>origin = PStr ''human'', message = PStr q1\<rparr>,
             \<lparr>origin = PStr ''ai'', message = PStr a1\<rparr>]"
    by (simp add: history_msgs_def h1 m1)
  have r2: "history_msgs s2 = [\<lparr>origin = PStr ''human'', message = PStr q1\<rparr>,
             \<lparr>origin = PStr ''ai'', message = PStr a1\<rparr>,
             \<lparr>origin = PStr ''human'', message = PStr q2\<rparr>,
             \<lparr>origin = PStr ''ai'', message = PStr a2\<rparr>]"
    by (simp add: history_msgs_def h2 m2)
  have f: "history_file s2 = Some (Json (history_msgs s2))"
    using f2 by (simp add: json_dump_def history_msgs_def h2 m2 split: if_splits)
  from r1 r2 f show ?thesis by simp
qed

text \<open>
  Witness of C7: with a retriever and a model that answer, both turns succeed.
\<close>

theorem two_turns_history_witness:
  "history (session_start None) = Some []
   \<and> fst (on_click_callback demo_env ''when is the meeting?'' (session_start None)) = Inr ()
   \<and> fst (on_click_callback demo_env ''tell me a joke''
            (snd (on_click_callback demo_env ''when is the meeting?'' (session_start None)))) = Inr ()
   \<and> length (history_msgs (snd (on_click_callback demo_env ''tell me a joke''
            (snd (on_click_callback demo_env ''when is the meeting?'' (session_start None)))))) = 4
   \<and> map origin (history_msgs (snd (on_click_callback demo_env ''tell me a joke''
            (snd (on_click_callback demo_env ''when is the meeting?'' (session_start None))))))
       = [PStr ''human'', PStr ''ai'', PStr ''human'', PStr ''ai'']"
proof -
  let ?s = "session_start None"
  have ret: "\<And>x. \<exists>docs. retriever demo_env x = Inr docs"
    and gen: "\<And>p. \<exists>answer. llm demo_env p = Inr answer"
    by (simp_all add: demo_env_def)
  from on_click_callback_total[OF empty_session_facts(1) _ _ ret gen, of "''when is the meeting?''"]
  obtain s1 where t1: "on_click_callback demo_env ''when is the meeting?'' ?s = (Inr (), s1)"
    and h1: "history s1 = Some [0, 1]" and n1: "next_addr s1 = 2"
    and g1: "list_all (\<lambda>a. is_str (message (heap s1 a)) \<and> json_serializable (origin (heap s1 a))) [0, 1]"
    by (auto simp: empty_session_facts numeral_2_eq_2)
  have al1: "list_all (\<lambda>a. a < next_addr s1) [0, 1]" by (simp add: n1)
  from on_click_callback_total[OF h1 al1 g1 ret gen, of "''tell me a joke''"]
  obtain s2 where t2: "on_click_callback demo_env ''tell me a joke'' s1 = (Inr (), s2)" by blast
  from two_turns_history[OF empty_session_facts(1) t1 t2] t1 t2 empty_session_facts(1)
  show ?thesis by auto
qed

section \<open>New chat\<close>

text \<open>
  C8, as amended. The handler of "New Chat" empties the history in every case, and
  running it twice is the same as running it once; so is \<open>clear_chat_history\<close>. When the
  file is absent, or is there and can be removed, neither fails and the file is absent
  afterwards. When the file is there and \<open>os.remove\<close> cannot remove it, the error is raised
  to the caller, by the first call and by the second, and the file stays as it is: there is
  no handler.
\<close>

theorem new_chat_idempotent:
  "history (snd (new_chat s)) = Some []
   \<and> history_msgs (snd (new_chat s)) = []
   \<and> new_chat (snd (new_chat s)) = new_chat s
   \<and> clear_chat_history (snd (clear_chat_history s)) = clear_chat_history s
   \<and> (history_file s = None \<or> removable s \<longrightarrow>
         fst (new_chat s) = Inr () \<and> history_file (snd (new_chat s)) = None
         \<and> fst (clear_chat_history s) = Inr ()
         \<and> history_file (snd (clear_chat_history s)) = None)
   \<and> (history_file s \<noteq> None \<and> \<not> removable s \<longrightarrow>
         fst (new_chat s) = Inl PermissionError
         \<and> history_file (snd (new_chat s)) = history_file s
         \<and> clear_chat_history s = (Inl PermissionError, s))"
  by (auto simp: new_chat_eq clear_chat_history_eq history_msgs_def)

text \<open>
  Witness of C8: a file that can be removed, no file, and a file that cannot be removed.
\<close>

theorem new_chat_idempotent_witness:
  "fst (new_chat (session_start (Some (Json greeting)))) = Inr ()
   \<and> history_file (snd (new_chat (session_start (Some (Json greeting))))) = None
   \<and> new_chat (snd (new_chat (session_start (Some (Json greeting)))))
       = new_chat (session_start (Some (Json greeting)))
   \<and> fst (new_chat (session_start None)) = Inr ()
   \<and> new_chat (snd (new_chat (session_start None))) = new_chat (session_start None)
   \<and> fst (new_chat locked_session) = Inl PermissionError
   \<and> history (snd (new_chat locked_session)) = Some []
   \<and> new_chat (snd (new_chat locked_session)) = new_chat locked_session"
proof -
  have "removable (session_start (Some (Json greeting)))"
    "history_file (session_start None) = None"
    "history_file locked_session = Some (Json greeting)" "\<not> removable locked_session"
    by code_simp+
  then show ?thesis
    using new_chat_idempotent[of "session_start (Some (Json greeting))"]
      new_chat_idempotent[of "session_start None"]
      new_chat_idempotent[of locked_session] by simp
qed

text \<open>
  Counterexample to C8 as stated: with a history file that cannot be removed, the handler
  raises, the file stays, and the second run raises again.
\<close>

theorem new_chat_raises_when_file_stays:
  "fst (new_chat locked_session) = Inl PermissionError
   \<and> history_file (snd (new_chat locked_session)) = Some (Json greeting)
   \<and> fst (new_chat (snd (new_chat locked_session))) = Inl PermissionError
   \<and> history_file (snd (new_chat (snd (new_chat locked_session)))) = Some (Json greeting)
   \<and> fst (clear_chat_history locked_session) = Inl PermissionError"
  by code_simp

section \<open>The origin invariant\<close>







section \<open>Coercion in place\<close>

text \<open>
  C10. After \<open>save_chat_history\<close> has run on a list of message objects, whatever its
  result, none of them has a dictionary as payload: an object whose payload was a
  dictionary now holds its \<open>str\<close>, every other object of the list (one with a string
  payload among them) is unchanged, and so is every object outside the list. The history
  of the session is the same list of references, so it sees the coerced payloads.
\<close>

theorem save_chat_history_coerces_in_place:
  assumes "save_chat_history env hist s = (r, s1)"
  shows "list_all (\<lambda>a. \<not> is_dict (message (heap s1 a))) hist
     \<and> (\<forall>a\<in>set hist. heap s1 a =
           (if is_dict (message (heap s a))
            then (heap s a)\<lparr>message := PStr (py_str env (message (heap s a)))\<rparr>
            else heap s a))
     \<and> (\<forall>a\<in>set hist. is_str (message (heap s a)) \<longrightarrow> heap s1 a = heap s a)
     \<and> (\<forall>a. a \<notin> set hist \<longrightarrow> heap s1 a = heap s a)
     \<and> history s1 = history s
     \<and> (history s = Some hist \<longrightarrow>
           list_all (\<lambda>m. \<not> is_dict (message m)) (history_msgs s1))"
proof -
  note eff = save_chat_history_effect[OF assms]
  have nd: "\<not> is_dict (message (coerce_msg env m))" for m
    by (simp add: coerce_msg_def)
  have strs: "is_str v \<Longrightarrow> \<not> is_dict v" for v by (cases v) simp_all
  have 1: "list_all (\<lambda>a. \<not> is_dict (message (heap s1 a))) hist"
    using nd by (simp add: eff(1) list_all_iff)
  have 2: "\<forall>a\<in>set hist. heap s1 a =
           (if is_dict (message (heap s a))
            then (heap s a)\<lparr>message := PStr (py_str env (message (heap s a)))\<rparr>
            else heap s a)"
    by (simp add: eff(1) coerce_msg_def)
  have 3: "\<forall>a\<in>set hist. is_str (message (heap s a)) \<longrightarrow> heap s1 a = heap s a"
    using strs by (simp add: eff(1) coerce_msg_def)
  have 4: "\<forall>a. a \<notin> set hist \<longrightarrow> heap s1 a = heap s a"
    by (simp add: eff(1))
  have 5: "history s = Some hist \<longrightarrow>
           list_all (\<lambda>m. \<not> is_dict (message m)) (history_msgs s1)"
    using 1 eff(2) by (simp add: history_msgs_def list_all_iff)
  from 1 2 3 4 5 eff(2) show ?thesis by blast
qed

text \<open>
  Witness of C10: a history with one dictionary payload and one string payload.
\<close>

theorem save_chat_history_in_place_witness:
  "heap (snd (save_chat_history demo_env [0, 1] (session_start (Some (Json dict_payloads))))) 0
     = \<lparr>origin = PStr ''ai'', message = PStr ''{}''\<rparr>
   \<and> heap (snd (save_chat_history demo_env [0, 1] (session_start (Some (Json dict_payloads))))) 1
     = \<lparr>origin = PStr ''human'', message = PStr ''hi''\<rparr>
   \<and> history (snd (save_chat_history demo_env [0, 1] (session_start (Some (Json dict_payloads)))))
     = Some [0, 1]"
proof -
  let ?s = "session_start (Some (Json dict_payloads))"
  have s: "heap ?s 0 = \<lparr>origin = PStr ''ai'', message = PDict []\<rparr>"
    "heap ?s 1 = \<lparr>origin = PStr ''human'', message = PStr ''hi''\<rparr>"
    "history ?s = Some [0, 1]" "py_str demo_env (PDict []) = ''{}''"
    by code_simp+
  have run: "save_chat_history demo_env [0, 1] ?s
     = (fst (save_chat_history demo_env [0, 1] ?s), snd (save_chat_history demo_env [0, 1] ?s))"
    by simp
  from save_chat_history_coerces_in_place[OF run] s show ?thesis by simp
qed

end
